theory Spec2Isabelle
  imports Main "HOL-Library.AList"
begin

section \<open>Data model of \<open>kasaApi.py\<close>\<close>

text \<open>
  The service keeps three module-level dictionaries keyed by host (\<open>device_cache\<close>,
  \<open>device_lock_cache\<close>, \<open>device_config_cache\<close>) and talks to the devices through the
  \<open>kasa\<close> library. Python dictionaries keep insertion order, so they are association
  lists here, read with \<open>map_of\<close> and changed with \<open>AList.update\<close> / \<open>AList.delete\<close>.
  A \<open>Device\<close> object is a handle (a number); an \<open>asyncio.Lock\<close> object is a number
  too, so that two locks are the same object exactly when the numbers agree.
\<close>

type_synonym host = string
type_synonym handle = nat
type_synonym lock = nat
type_synonym config_dict = "(string \<times> string) list"

datatype device_config = DeviceConfig config_dict

datatype exn_class =
    ValueError | AttributeError | IndexError | KeyError | TypeError | UnboundLocalError
  | UnsupportedDeviceError | AuthenticationError | KasaException

text \<open>An exception: its class and the text \<open>str(e)\<close> gives.\<close>

datatype exn = Exn exn_class string

fun str_exn :: "exn \<Rightarrow> string" where
  "str_exn (Exn c m) = m"

text \<open>
  JSON values, for what \<open>custom_serializer\<close> builds and the operations return. An
  object is an association list in insertion order.
\<close>

datatype json =
    JNull | JBool bool | JInt int | JStr string | JList "json list"
  | JObj "(string \<times> json) list"

text \<open>
  The \<open>value\<close> of a control request as the dispatcher receives it: an integer, a
  dictionary of integers (hue and saturation), or \<open>None\<close> when the request has none.
\<close>

datatype pyvalue = PyInt int | PyDict "(string \<times> int) list" | PyNone

text \<open>The capability modules of a device, as the code reads them.\<close>

record light_module =
  light_features :: "string list"
  brightness :: int
  color_temp :: int
  hsv :: "int \<times> int \<times> int"
  valid_temperature_range :: "int \<times> int"

record fan_module =
  fan_speed_level :: int

text \<open>
  The attributes of a \<open>Device\<close> object that the code reads. \<open>state_feature\<close> is
  \<open>features["state"].value\<close> (\<open>None\<close>: the key is missing and the read raises
  \<open>KeyError\<close>); \<open>light\<close> and \<open>fan\<close> are \<open>modules.get(Module.Light)\<close> and
  \<open>modules.get(Module.Fan)\<close>; \<open>device_type_value\<close> is \<open>device_type.value\<close> and
  \<open>device_type_str\<close> the text an f-string gives for \<open>device_type\<close>.
\<close>

datatype device_attrs = DeviceAttrs
  (dev_alias: "string option")
  (children: "device_attrs list")
  (device_id: string)
  (mac: string)
  (sys_info_deviceId: "string option")
  (device_type_value: string)
  (device_type_str: string)
  (dev_host: string)
  (hardware_version: string)
  (dev_model: string)
  (firmware_version: string)
  (state_feature: "bool option")
  (light: "light_module option")
  (fan: "fan_module option")
  (homekit: bool)
  (matter: bool)

text \<open>
  A method call on the device library: the receiver is the target device itself
  (\<open>getattr(target, action)()\<close>, \<open>turn_on\<close>, \<open>turn_off\<close>) or one of its modules
  (\<open>getattr(light, action)(value)\<close>).
\<close>

datatype receiver = OnTarget | OnLight | OnFan

datatype arg = NoArg | IntArg int | TupleArg "int \<times> int \<times> int"

text \<open>
  Every call that leaves the process is recorded, in order. A target is a handle and,
  for a child, the index of the child in \<open>device.children\<close>.
\<close>

datatype event =
    EvConnect device_config
  | EvUpdate handle
  | EvDisconnect handle
  | EvCall handle "nat option" receiver string arg
  | EvDiscover string
  | EvDiscoverSingle host
  | EvAcquire lock
  | EvRelease lock

text \<open>
  The \<open>kasa\<close> library is not part of the repository: it is a parameter. \<open>'w\<close> is the
  state of everything outside the process (the network and the devices, and what the
  \<open>Device\<close> objects hold in memory). Each call takes that state and returns its result,
  an exception or a value, with the new state. \<open>discover\<close> returns the devices in the
  order in which it hands them to the \<open>on_discovered\<close> callback, and the exception it
  raises afterwards, if any.
\<close>

record 'w kasa =
  from_dict :: "config_dict option \<Rightarrow> exn + device_config"
  connect :: "device_config \<Rightarrow> 'w \<Rightarrow> (exn + handle) \<times> 'w"
  update :: "handle \<Rightarrow> 'w \<Rightarrow> (exn + unit) \<times> 'w"
  disconnect :: "handle \<Rightarrow> 'w \<Rightarrow> (exn + unit) \<times> 'w"
  attrs :: "handle \<Rightarrow> 'w \<Rightarrow> device_attrs"
  to_dict :: "handle \<Rightarrow> 'w \<Rightarrow> exn + config_dict"
  invoke :: "handle \<Rightarrow> nat option \<Rightarrow> receiver \<Rightarrow> string \<Rightarrow> arg \<Rightarrow> 'w \<Rightarrow> (exn + unit) \<times> 'w"
  discover :: "string \<Rightarrow> (string \<times> string) option \<Rightarrow> 'w
    \<Rightarrow> ((host \<times> handle) list \<times> exn option) \<times> 'w"
  discover_single :: "host \<Rightarrow> (string \<times> string) option \<Rightarrow> 'w \<Rightarrow> (exn + handle) \<times> 'w"

text \<open>
  The state of the process: the three dictionaries, the number the next
  \<open>asyncio.Lock()\<close> object gets, the outside world and the record of calls.
\<close>

record 'w state =
  device_cache :: "(host \<times> handle) list"
  device_lock_cache :: "(host \<times> lock) list"
  device_config_cache :: "(host \<times> config_dict) list"
  lock_counter :: nat
  world :: 'w
  trace :: "event list"

section \<open>Calls on the device library\<close>

definition do_connect :: "'w kasa \<Rightarrow> device_config \<Rightarrow> 'w state \<Rightarrow> (exn + handle) \<times> 'w state" where
  "do_connect L cfg s =
     (let (r, w) = connect L cfg (world s)
      in (r, s\<lparr>world := w, trace := trace s @ [EvConnect cfg]\<rparr>))"

definition do_update :: "'w kasa \<Rightarrow> handle \<Rightarrow> 'w state \<Rightarrow> (exn + unit) \<times> 'w state" where
  "do_update L h s =
     (let (r, w) = update L h (world s)
      in (r, s\<lparr>world := w, trace := trace s @ [EvUpdate h]\<rparr>))"

definition do_disconnect :: "'w kasa \<Rightarrow> handle \<Rightarrow> 'w state \<Rightarrow> (exn + unit) \<times> 'w state" where
  "do_disconnect L h s =
     (let (r, w) = disconnect L h (world s)
      in (r, s\<lparr>world := w, trace := trace s @ [EvDisconnect h]\<rparr>))"

definition do_call ::
  "'w kasa \<Rightarrow> handle \<Rightarrow> nat option \<Rightarrow> receiver \<Rightarrow> string \<Rightarrow> arg \<Rightarrow> 'w state
    \<Rightarrow> (exn + unit) \<times> 'w state" where
  "do_call L h c r a x s =
     (let (res, w) = invoke L h c r a x (world s)
      in (res, s\<lparr>world := w, trace := trace s @ [EvCall h c r a x]\<rparr>))"

section \<open>The action dispatcher\<close>

text \<open>\<open>xs[i]\<close> in Python: a negative index counts from the end, out of range raises.\<close>

definition py_index :: "'a list \<Rightarrow> int \<Rightarrow> exn + nat" where
  "py_index xs i =
     (let n = int (length xs); j = (if i < 0 then n + i else i)
      in if 0 \<le> j \<and> j < n then Inr (nat j)
         else Inl (Exn IndexError ''list index out of range''))"

text \<open>The attributes of the target: the device, or its child at a valid index.\<close>

definition target_attrs :: "'w kasa \<Rightarrow> handle \<Rightarrow> nat option \<Rightarrow> 'w state \<Rightarrow> device_attrs" where
  "target_attrs L h c s =
     (case c of None \<Rightarrow> attrs L h (world s)
      | Some i \<Rightarrow> children (attrs L h (world s)) ! i)"

text \<open>
  \<open>light.has_feature(name)\<close>, where \<open>light\<close> is \<open>modules.get(Module.Light)\<close>: on a
  target with no light module \<open>light\<close> is \<open>None\<close> and the attribute access raises.
\<close>

definition has_feature :: "light_module option \<Rightarrow> string \<Rightarrow> exn + bool" where
  "has_feature l name =
     (case l of
        None \<Rightarrow> Inl (Exn AttributeError ''NoneType object has no attribute has_feature'')
      | Some m \<Rightarrow> Inr (name \<in> set (light_features m)))"

text \<open>Python's \<open>a and b\<close> on a condition whose right side may raise.\<close>

definition py_and :: "bool \<Rightarrow> exn + bool \<Rightarrow> exn + bool" where
  "py_and a b = (if a then b else Inr False)"

definition handle_brightness ::
  "'w kasa \<Rightarrow> handle \<Rightarrow> nat option \<Rightarrow> string \<Rightarrow> pyvalue \<Rightarrow> 'w state \<Rightarrow> (exn + unit) \<times> 'w state" where
  "handle_brightness L h c action v s =
     (case v of
        PyInt n \<Rightarrow>
          if n = 0 then do_call L h c OnTarget ''turn_off'' NoArg s
          else if 0 < n \<and> n \<le> 100 then
            (case light (target_attrs L h c s) of
               None \<Rightarrow> (Inl (Exn AttributeError ''NoneType object has no such attribute''), s)
             | Some l \<Rightarrow> do_call L h c OnLight action (IntArg n) s)
          else do_call L h c OnTarget ''turn_on'' NoArg s
      | _ \<Rightarrow> (Inl (Exn TypeError ''not supported between instances''), s))"

definition handle_color_temp ::
  "'w kasa \<Rightarrow> handle \<Rightarrow> nat option \<Rightarrow> string \<Rightarrow> pyvalue \<Rightarrow> 'w state \<Rightarrow> (exn + unit) \<times> 'w state" where
  "handle_color_temp L h c action v s =
     (case light (target_attrs L h c s) of
        None \<Rightarrow> (Inl (Exn AttributeError ''NoneType object has no attribute valid_temperature_range''), s)
      | Some l \<Rightarrow>
          (case v of
             PyInt n \<Rightarrow>
               (let (min_temp, max_temp) = valid_temperature_range l;
                    n' = max (min n max_temp) min_temp
                in do_call L h c OnLight action (IntArg n') s)
           | _ \<Rightarrow> (Inl (Exn TypeError ''not supported between instances''), s)))"

definition handle_fan_speed_level ::
  "'w kasa \<Rightarrow> handle \<Rightarrow> nat option \<Rightarrow> string \<Rightarrow> pyvalue \<Rightarrow> 'w state \<Rightarrow> (exn + unit) \<times> 'w state" where
  "handle_fan_speed_level L h c action v s =
     (case v of
        PyInt n \<Rightarrow>
          if n = 0 then do_call L h c OnTarget ''turn_off'' NoArg s
          else if 0 < n \<and> n \<le> 100 then
            (case fan (target_attrs L h c s) of
               None \<Rightarrow> (Inl (Exn AttributeError ''NoneType object has no such attribute''), s)
             | Some f \<Rightarrow> do_call L h c OnFan action (IntArg n) s)
          else do_call L h c OnTarget ''turn_on'' NoArg s
      | _ \<Rightarrow> (Inl (Exn TypeError ''not supported between instances''), s))"

text \<open>\<open>value[key]\<close> on the request's value.\<close>

definition subscript :: "pyvalue \<Rightarrow> string \<Rightarrow> exn + int" where
  "subscript v key =
     (case v of
        PyDict d \<Rightarrow> (case map_of d key of Some x \<Rightarrow> Inr x | None \<Rightarrow> Inl (Exn KeyError key))
      | _ \<Rightarrow> Inl (Exn TypeError ''object is not subscriptable''))"

definition handle_hsv ::
  "'w kasa \<Rightarrow> handle \<Rightarrow> nat option \<Rightarrow> string \<Rightarrow> string \<Rightarrow> pyvalue \<Rightarrow> 'w state
    \<Rightarrow> (exn + unit) \<times> 'w state" where
  "handle_hsv L h c action feature v s =
     (case light (target_attrs L h c s) of
        None \<Rightarrow> (Inl (Exn AttributeError ''NoneType object has no attribute hsv''), s)
      | Some l \<Rightarrow>
          (let (h0, s0, v0) = hsv l
           in if feature = ''hue'' then
                (case subscript v ''hue'' of
                   Inl e \<Rightarrow> (Inl e, s)
                 | Inr x \<Rightarrow> do_call L h c OnLight action (TupleArg (x, s0, v0)) s)
              else if feature = ''saturation'' then
                (case subscript v ''saturation'' of
                   Inl e \<Rightarrow> (Inl e, s)
                 | Inr x \<Rightarrow> do_call L h c OnLight action (TupleArg (h0, x, v0)) s)
              else do_call L h c OnLight action (TupleArg (h0, s0, v0)) s))"

text \<open>
  The \<open>if\<close>/\<open>elif\<close> chain of \<open>perform_device_action\<close>, on a target already chosen.
  A condition that raises ends the chain with its exception.
\<close>

definition dispatch ::
  "'w kasa \<Rightarrow> handle \<Rightarrow> nat option \<Rightarrow> string \<Rightarrow> string \<Rightarrow> pyvalue \<Rightarrow> 'w state
    \<Rightarrow> (exn + unit) \<times> 'w state" where
  "dispatch L h c feature action v s =
     (let l = light (target_attrs L h c s); f = fan (target_attrs L h c s)
      in if feature = ''state'' then do_call L h c OnTarget action NoArg s
         else case py_and (feature = ''brightness'') (has_feature l ''brightness'') of
           Inl e \<Rightarrow> (Inl e, s)
         | Inr True \<Rightarrow> handle_brightness L h c action v s
         | Inr False \<Rightarrow>
         (case py_and (feature = ''color_temp'') (has_feature l ''color_temp'') of
           Inl e \<Rightarrow> (Inl e, s)
         | Inr True \<Rightarrow> handle_color_temp L h c action v s
         | Inr False \<Rightarrow>
         (if feature = ''fan_speed_level'' \<and> f \<noteq> None then handle_fan_speed_level L h c action v s
          else case py_and (feature \<in> set [''hue'', ''saturation'']) (has_feature l ''hsv'') of
           Inl e \<Rightarrow> (Inl e, s)
         | Inr True \<Rightarrow> handle_hsv L h c action feature v s
         | Inr False \<Rightarrow> (Inl (Exn ValueError ''Invalid feature or action''), s))))"

definition success :: json where
  "success = JObj [(''status'', JStr ''success'')]"

text \<open>
  \<open>target = device.children[child_num] if child_num is not None else device\<close>: the
  index of the child that is the target, or \<open>None\<close> for the device itself.
\<close>

definition choose_target :: "'w kasa \<Rightarrow> handle \<Rightarrow> int option \<Rightarrow> 'w state \<Rightarrow> exn + nat option" where
  "choose_target L device child_num s =
     (case child_num of
        None \<Rightarrow> Inr None
      | Some i \<Rightarrow>
          (case py_index (children (attrs L device (world s))) i of
             Inl e \<Rightarrow> Inl e
           | Inr k \<Rightarrow> Inr (Some k)))"

definition perform_device_action ::
  "'w kasa \<Rightarrow> handle \<Rightarrow> string \<Rightarrow> string \<Rightarrow> pyvalue \<Rightarrow> int option \<Rightarrow> 'w state
    \<Rightarrow> (exn + json) \<times> 'w state" where
  "perform_device_action L device feature action v child_num s =
     (case choose_target L device child_num s of
        Inl e \<Rightarrow> (Inl e, s)
      | Inr c \<Rightarrow>
          (case dispatch L device c feature action v s of
             (Inl e, s') \<Rightarrow> (Inl e, s')
           | (Inr u, s') \<Rightarrow> (Inr success, s')))"

section \<open>The serializer\<close>

text \<open>\<open>d.update(e)\<close> on dictionaries: the keys of \<open>e\<close> in order, each replaced or appended.\<close>

definition dict_update :: "(string \<times> json) list \<Rightarrow> (string \<times> json) list \<Rightarrow> (string \<times> json) list" where
  "dict_update d e = fold (\<lambda>(k, v). AList.update k v) e d"

definition json_opt_str :: "string option \<Rightarrow> json" where
  "json_opt_str x = (case x of None \<Rightarrow> JNull | Some a \<Rightarrow> JStr a)"

definition get_light_info :: "device_attrs \<Rightarrow> exn + (string \<times> json) list" where
  "get_light_info device =
     (case light device of
        None \<Rightarrow> Inl (Exn AttributeError ''NoneType object has no attribute has_feature'')
      | Some l \<Rightarrow>
          (let light_info = [];
               light_info = (if ''brightness'' \<in> set (light_features l)
                             then AList.update ''brightness'' (JInt (brightness l)) light_info
                             else light_info);
               light_info = (if ''color_temp'' \<in> set (light_features l)
                             then AList.update ''color_temp'' (JInt (color_temp l)) light_info
                             else light_info);
               light_info = (if ''hsv'' \<in> set (light_features l)
                             then (let (hue, saturation, _) = hsv l
                                   in AList.update ''hsv''
                                        (JObj [(''hue'', JInt hue), (''saturation'', JInt saturation)])
                                        light_info)
                             else light_info)
           in Inr light_info))"

text \<open>\<open>s.split("_", 1)[1] if "_" in s else s\<close>: what follows the first underscore.\<close>

definition child_id :: "string \<Rightarrow> string" where
  "child_id s = (if CHR ''_'' \<in> set s then tl (dropWhile (\<lambda>c. c \<noteq> CHR ''_'') s) else s)"

definition serialize_child :: "device_attrs \<Rightarrow> exn + (string \<times> json) list" where
  "serialize_child child =
     (case state_feature child of
        None \<Rightarrow> Inl (Exn KeyError ''state'')
      | Some st \<Rightarrow>
          (let child_info = [(''alias'', json_opt_str (dev_alias child)),
                             (''id'', JStr (child_id (device_id child))),
                             (''state'', JBool st)]
           in case (if light child \<noteq> None
                    then (case get_light_info child of
                            Inl e \<Rightarrow> Inl e
                          | Inr li \<Rightarrow> Inr (dict_update child_info li))
                    else Inr child_info) of
                Inl e \<Rightarrow> Inl e
              | Inr child_info \<Rightarrow>
                  (case fan child of
                     Some f \<Rightarrow> Inr (dict_update child_info [(''fan_speed_level'', JInt (fan_speed_level f))])
                   | None \<Rightarrow> Inr child_info)))"

text \<open>The list comprehension over the children: the first child that raises ends it.\<close>

fun serialize_children :: "device_attrs list \<Rightarrow> exn + json list" where
  "serialize_children [] = Inr []"
| "serialize_children (child # rest) =
     (case serialize_child child of
        Inl e \<Rightarrow> Inl e
      | Inr ci \<Rightarrow>
          (case serialize_children rest of
             Inl e \<Rightarrow> Inl e
           | Inr cis \<Rightarrow> Inr (JObj ci # cis)))"

record serialized =
  sys_info :: "(string \<times> json) list"
  feature_info :: "(string \<times> json) list"

definition custom_serializer :: "device_attrs \<Rightarrow> exn + serialized" where
  "custom_serializer device =
     (let child_num = length (children device);
          sys_info =
            [(''alias'', JStr (case dev_alias device of
                                 Some a \<Rightarrow> if a \<noteq> [] then a
                                           else device_type_str device @ ''_'' @ dev_host device
                               | None \<Rightarrow> device_type_str device @ ''_'' @ dev_host device)),
             (''child_num'', JInt (int child_num)),
             (''device_id'', if mac device \<noteq> device_id device then JStr (device_id device)
                             else json_opt_str (sys_info_deviceId device)),
             (''device_type'', JStr (device_type_value device)),
             (''host'', JStr (dev_host device)),
             (''hw_ver'', JStr (hardware_version device)),
             (''mac'', JStr (mac device)),
             (''model'', JStr (dev_model device)),
             (''sw_ver'', JStr (firmware_version device))];
          light_module = light device;
          fan_module = fan device
      in case (if child_num > 0 then
                 (case serialize_children (children device) of
                    Inl e \<Rightarrow> Inl e
                  | Inr cs \<Rightarrow> Inr (AList.update ''children'' (JList cs) sys_info))
               else
                 (case state_feature device of
                    None \<Rightarrow> Inl (Exn KeyError ''state'')
                  | Some st \<Rightarrow>
                      (let sys_info = dict_update sys_info [(''state'', JBool st)]
                       in case (if light_module \<noteq> None
                                then (case get_light_info device of
                                        Inl e \<Rightarrow> Inl e
                                      | Inr li \<Rightarrow> Inr (dict_update sys_info li))
                                else Inr sys_info) of
                            Inl e \<Rightarrow> Inl e
                          | Inr sys_info \<Rightarrow>
                              (case fan_module of
                                 Some f \<Rightarrow> Inr (dict_update sys_info
                                                  [(''fan_speed_level'', JInt (fan_speed_level f))])
                               | None \<Rightarrow> Inr sys_info)))) of
           Inl e \<Rightarrow> Inl e
         | Inr sys_info \<Rightarrow>
             (let feature_info = [(''brightness'', JBool False), (''color_temp'', JBool False),
                                  (''hsv'', JBool False), (''fan'', JBool False)];
                  feature_info =
                    (case light_module of
                       Some l \<Rightarrow> dict_update feature_info
                                   [(''brightness'', JBool (''brightness'' \<in> set (light_features l))),
                                    (''color_temp'', JBool (''color_temp'' \<in> set (light_features l))),
                                    (''hsv'', JBool (''hsv'' \<in> set (light_features l)))]
                     | None \<Rightarrow> feature_info);
                  feature_info =
                    (if fan_module \<noteq> None then dict_update feature_info [(''fan'', JBool True)]
                     else feature_info)
              in Inr \<lparr>sys_info = sys_info, feature_info = feature_info\<rparr>))"

section \<open>The session resolver\<close>

text \<open>
  \<open>asyncio.Lock()\<close> makes a new lock object, and
  \<open>device_lock_cache.get(host, asyncio.Lock())\<close> evaluates its default first: a new
  lock is made at every lookup, and it is the result when the table has no entry for
  the host. The lookup does not change the table.
\<close>

definition new_lock :: "'w state \<Rightarrow> lock \<times> 'w state" where
  "new_lock s = (lock_counter s, s\<lparr>lock_counter := Suc (lock_counter s)\<rparr>)"

definition lock_get :: "host \<Rightarrow> 'w state \<Rightarrow> lock \<times> 'w state" where
  "lock_get host s =
     (let (fresh, s') = new_lock s
      in (case map_of (device_lock_cache s') host of Some l \<Rightarrow> l | None \<Rightarrow> fresh, s'))"

text \<open>Entering and leaving \<open>async with device_lock\<close>.\<close>

definition acquire :: "lock \<Rightarrow> 'w state \<Rightarrow> 'w state" where
  "acquire l s = s\<lparr>trace := trace s @ [EvAcquire l]\<rparr>"

definition release :: "lock \<Rightarrow> 'w state \<Rightarrow> 'w state" where
  "release l s = s\<lparr>trace := trace s @ [EvRelease l]\<rparr>"

definition cache_pop :: "host \<Rightarrow> 'w state \<Rightarrow> 'w state" where
  "cache_pop host s = s\<lparr>device_cache := AList.delete host (device_cache s)\<rparr>"

text \<open>
  \<open>get_or_connect_device\<close>. In the handler \<open>device\<close> is still what the cache lookup
  gave, since \<open>Device.connect\<close> is the only call of the body that raises.
\<close>

definition get_or_connect_device ::
  "'w kasa \<Rightarrow> host \<Rightarrow> device_config \<Rightarrow> 'w state \<Rightarrow> (exn + handle) \<times> 'w state" where
  "get_or_connect_device L host cfg s =
     (let device = map_of (device_cache s) host
      in case device of
           Some d \<Rightarrow> (Inr d, s)
         | None \<Rightarrow>
             (case do_connect L cfg s of
                (Inr d, s1) \<Rightarrow> (Inr d, s1\<lparr>device_cache := AList.update host d (device_cache s1)\<rparr>)
              | (Inl e, s1) \<Rightarrow>
                  (case (case device of
                           Some d \<Rightarrow> do_disconnect L d s1
                         | None \<Rightarrow> (Inr (), s1)) of
                     (Inl e', s2) \<Rightarrow> (Inl e', s2)
                   | (Inr u, s2) \<Rightarrow> (Inl e, cache_pop host s2))))"

text \<open>
  The local variables of \<open>get_sys_info\<close> and \<open>control_device\<close> that their handlers
  read; \<open>None\<close> is a variable not assigned yet, and reading it raises
  \<open>UnboundLocalError\<close>.
\<close>

record locals =
  var_device :: "handle option"
  var_device_config :: "device_config option"

definition unbound :: "string \<Rightarrow> exn" where
  "unbound name = Exn UnboundLocalError name"

definition error_result :: "exn \<Rightarrow> json" where
  "error_result e = JObj [(''error'', JStr (str_exn e))]"

text \<open>
  The inner handler of both operations (lines 289 to 293 and 335 to 339):
  \<open>if device: await device.disconnect()\<close>, \<open>device_cache.pop(host, None)\<close>,
  \<open>return {"error": str(e)}\<close>.
\<close>

definition give_up :: "'w kasa \<Rightarrow> host \<Rightarrow> locals \<Rightarrow> exn \<Rightarrow> 'w state \<Rightarrow> (exn + json) \<times> 'w state" where
  "give_up L host vars e s =
     (case var_device vars of
        None \<Rightarrow> (Inl (unbound ''device''), s)
      | Some device \<Rightarrow>
          (case do_disconnect L device s of
             (Inl e', s1) \<Rightarrow> (Inl e', s1)
           | (Inr u, s1) \<Rightarrow> (Inr (error_result e), cache_pop host s1)))"

subsection \<open>\<open>get_sys_info\<close>\<close>

definition sys_info_result :: "serialized \<Rightarrow> json" where
  "sys_info_result device_info = JObj [(''sys_info'', JObj (sys_info device_info))]"

text \<open>The body of the outer \<open>try\<close> (lines 270 to 277).\<close>

definition get_sys_info_try :: "'w kasa \<Rightarrow> host \<Rightarrow> 'w state \<Rightarrow> (locals \<times> (exn + json)) \<times> 'w state" where
  "get_sys_info_try L host s =
     (let vars = \<lparr>var_device = None, var_device_config = None\<rparr>;
          device_config_dict = map_of (device_config_cache s) host
      in case from_dict L device_config_dict of
           Inl e \<Rightarrow> ((vars, Inl e), s)
         | Inr cfg \<Rightarrow>
             (let vars = vars\<lparr>var_device_config := Some cfg\<rparr>;
                  (device_lock, s1) = lock_get host s;
                  s2 = acquire device_lock s1
              in case get_or_connect_device L host cfg s2 of
                   (Inl e, s3) \<Rightarrow> ((vars, Inl e), release device_lock s3)
                 | (Inr device, s3) \<Rightarrow>
                     (let vars = vars\<lparr>var_device := Some device\<rparr>
                      in case do_update L device s3 of
                           (Inl e, s4) \<Rightarrow> ((vars, Inl e), release device_lock s4)
                         | (Inr u, s4) \<Rightarrow>
                             (case custom_serializer (attrs L device (world s4)) of
                                Inl e \<Rightarrow> ((vars, Inl e), release device_lock s4)
                              | Inr device_info \<Rightarrow>
                                  ((vars, Inr (sys_info_result device_info)),
                                   release device_lock s4)))))"

text \<open>The body of the inner \<open>try\<close> (lines 280 to 287).\<close>

definition get_sys_info_retry ::
  "'w kasa \<Rightarrow> host \<Rightarrow> locals \<Rightarrow> 'w state \<Rightarrow> (locals \<times> (exn + json)) \<times> 'w state" where
  "get_sys_info_retry L host vars s =
     (case var_device vars of
        None \<Rightarrow> ((vars, Inl (unbound ''device'')), s)
      | Some device \<Rightarrow>
          (case do_disconnect L device s of
             (Inl e, s1) \<Rightarrow> ((vars, Inl e), s1)
           | (Inr u, s1) \<Rightarrow>
               (let s2 = cache_pop host s1;
                    (device_lock, s3) = lock_get host s2;
                    s4 = acquire device_lock s3
                in case var_device_config vars of
                     None \<Rightarrow> ((vars, Inl (unbound ''device_config'')), release device_lock s4)
                   | Some cfg \<Rightarrow>
                       (case get_or_connect_device L host cfg s4 of
                          (Inl e, s5) \<Rightarrow> ((vars, Inl e), release device_lock s5)
                        | (Inr device, s5) \<Rightarrow>
                            (let vars = vars\<lparr>var_device := Some device\<rparr>
                             in case custom_serializer (attrs L device (world s5)) of
                                  Inl e \<Rightarrow> ((vars, Inl e), release device_lock s5)
                                | Inr device_info \<Rightarrow>
                                    ((vars, Inr (sys_info_result device_info)),
                                     release device_lock s5))))))"

definition get_sys_info :: "'w kasa \<Rightarrow> host \<Rightarrow> 'w state \<Rightarrow> (exn + json) \<times> 'w state" where
  "get_sys_info L host s =
     (case get_sys_info_try L host s of
        ((vars, Inr r), s1) \<Rightarrow> (Inr r, s1)
      | ((vars, Inl e), s1) \<Rightarrow>
          (case get_sys_info_retry L host vars s1 of
             ((vars', Inr r), s2) \<Rightarrow> (Inr r, s2)
           | ((vars', Inl e'), s2) \<Rightarrow> give_up L host vars' e' s2))"

subsection \<open>\<open>control_device\<close>\<close>

text \<open>The body of the outer \<open>try\<close> (lines 319 to 324).\<close>

definition control_device_try ::
  "'w kasa \<Rightarrow> host \<Rightarrow> string \<Rightarrow> string \<Rightarrow> pyvalue \<Rightarrow> int option \<Rightarrow> 'w state
    \<Rightarrow> (locals \<times> (exn + json)) \<times> 'w state" where
  "control_device_try L host feature action v child_num s =
     (let vars = \<lparr>var_device = None, var_device_config = None\<rparr>;
          device_config_dict = map_of (device_config_cache s) host
      in case from_dict L device_config_dict of
           Inl e \<Rightarrow> ((vars, Inl e), s)
         | Inr cfg \<Rightarrow>
             (let vars = vars\<lparr>var_device_config := Some cfg\<rparr>;
                  (device_lock, s1) = lock_get host s;
                  s2 = acquire device_lock s1
              in case get_or_connect_device L host cfg s2 of
                   (Inl e, s3) \<Rightarrow> ((vars, Inl e), release device_lock s3)
                 | (Inr device, s3) \<Rightarrow>
                     (let vars = vars\<lparr>var_device := Some device\<rparr>;
                          (r, s4) = perform_device_action L device feature action v child_num s3
                      in ((vars, r), release device_lock s4))))"

text \<open>The body of the inner \<open>try\<close> (lines 327 to 333).\<close>

definition control_device_retry ::
  "'w kasa \<Rightarrow> host \<Rightarrow> string \<Rightarrow> string \<Rightarrow> pyvalue \<Rightarrow> int option \<Rightarrow> locals \<Rightarrow> 'w state
    \<Rightarrow> (locals \<times> (exn + json)) \<times> 'w state" where
  "control_device_retry L host feature action v child_num vars s =
     (case var_device vars of
        None \<Rightarrow> ((vars, Inl (unbound ''device'')), s)
      | Some device \<Rightarrow>
          (case do_disconnect L device s of
             (Inl e, s1) \<Rightarrow> ((vars, Inl e), s1)
           | (Inr u, s1) \<Rightarrow>
               (let s2 = cache_pop host s1;
                    (device_lock, s3) = lock_get host s2;
                    s4 = acquire device_lock s3
                in case var_device_config vars of
                     None \<Rightarrow> ((vars, Inl (unbound ''device_config'')), release device_lock s4)
                   | Some cfg \<Rightarrow>
                       (case get_or_connect_device L host cfg s4 of
                          (Inl e, s5) \<Rightarrow> ((vars, Inl e), release device_lock s5)
                        | (Inr device, s5) \<Rightarrow>
                            (let vars = vars\<lparr>var_device := Some device\<rparr>;
                                 (r, s6) = perform_device_action L device feature action v child_num s5
                             in ((vars, r), release device_lock s6))))))"

definition control_device ::
  "'w kasa \<Rightarrow> host \<Rightarrow> string \<Rightarrow> string \<Rightarrow> pyvalue \<Rightarrow> int option \<Rightarrow> 'w state
    \<Rightarrow> (exn + json) \<times> 'w state" where
  "control_device L host feature action v child_num s =
     (case control_device_try L host feature action v child_num s of
        ((vars, Inr r), s1) \<Rightarrow> (Inr r, s1)
      | ((vars, Inl e), s1) \<Rightarrow>
          (case control_device_retry L host feature action v child_num vars s1 of
             ((vars', Inr r), s2) \<Rightarrow> (Inr r, s2)
           | ((vars', Inl e'), s2) \<Rightarrow> give_up L host vars' e' s2))"

section \<open>Discovery\<close>

text \<open>
  \<open>discover_devices\<close> starts its tasks with \<open>asyncio.gather\<close>. Here a gathered task
  runs to its end before the next one starts, in the order of the arguments.
\<close>

















section \<open>A concrete device library\<close>

text \<open>
  A library to run the code on: the outside state is the number of the next \<open>Device\<close>
  object, every device is the same colour bulb at \<open>10.0.0.2\<close>, and every call succeeds.
  The variants below make one call raise.
\<close>

definition bulb_light :: light_module where
  "bulb_light = \<lparr>light_features = [''brightness'', ''color_temp'', ''hsv''], brightness = 50,
                  color_temp = 2700, hsv = (120, 80, 50), valid_temperature_range = (2500, 6500)\<rparr>"

definition bulb :: device_attrs where
  "bulb = DeviceAttrs (Some ''Lamp'') [] ''8012AB'' ''AA:BB:CC'' None ''bulb'' ''DeviceType.Bulb''
            ''10.0.0.2'' ''1.0'' ''KL130'' ''1.8.11'' (Some True) (Some bulb_light) None False False"

definition socket :: device_attrs where
  "socket = DeviceAttrs (Some ''Socket'') [] ''8006CD_01'' ''AA:BB:DD'' None ''stripsocket''
              ''DeviceType.StripSocket'' ''10.0.0.3'' ''1.0'' ''KP303'' ''1.0.6'' (Some False) None None
              False False"

definition strip :: device_attrs where
  "strip = DeviceAttrs (Some ''Strip'') [socket] ''8006CD'' ''AA:BB:DD'' None ''strip''
             ''DeviceType.Strip'' ''10.0.0.3'' ''1.0'' ''KP303'' ''1.0.6'' (Some True) None None
             False False"

definition boom :: exn where
  "boom = Exn KasaException ''connection lost''"

definition bulb_config :: config_dict where
  "bulb_config = [(''host'', ''10.0.0.2'')]"

definition lib_ok :: "nat kasa" where
  "lib_ok =
     \<lparr>from_dict = (\<lambda>d. case d of None \<Rightarrow> Inl (Exn AttributeError ''NoneType'')
                         | Some c \<Rightarrow> Inr (DeviceConfig c)),
      connect = (\<lambda>cfg w. (Inr w, Suc w)),
      update = (\<lambda>h w. (Inr (), w)),
      disconnect = (\<lambda>h w. (Inr (), w)),
      attrs = (\<lambda>h w. bulb),
      to_dict = (\<lambda>h w. Inr bulb_config),
      invoke = (\<lambda>h c r a x w. (Inr (), w)),
      discover = (\<lambda>target credentials w. (([(''10.0.0.2'', w)], None), Suc w)),
      discover_single = (\<lambda>host credentials w. (Inr w, Suc w))\<rparr>"

definition lib_update_fails :: "nat kasa" where
  "lib_update_fails = lib_ok\<lparr>update := (\<lambda>h w. (Inl boom, w))\<rparr>"

definition lib_invoke_fails :: "nat kasa" where
  "lib_invoke_fails = lib_ok\<lparr>invoke := (\<lambda>h c r a x w. (Inl boom, w))\<rparr>"

definition lib_disconnect_fails :: "nat kasa" where
  "lib_disconnect_fails = lib_invoke_fails\<lparr>disconnect := (\<lambda>h w. (Inl boom, w))\<rparr>"

definition lib_connect_fails :: "nat kasa" where
  "lib_connect_fails = lib_ok\<lparr>connect := (\<lambda>cfg w. (Inl boom, w))\<rparr>"

definition lib_strip :: "nat kasa" where
  "lib_strip = lib_ok\<lparr>attrs := (\<lambda>h w. strip)\<rparr>"

text \<open>
  The process right after start, and with the bulb known: in the cache as handle 0,
  under lock 0, with its configuration stored.
\<close>

definition fresh_state :: "nat state" where
  "fresh_state = \<lparr>device_cache = [], device_lock_cache = [], device_config_cache = [],
                   lock_counter = 0, world = 0, trace = []\<rparr>"

definition known_state :: "nat state" where
  "known_state = \<lparr>device_cache = [(''10.0.0.2'', 0)], device_lock_cache = [(''10.0.0.2'', 0)],
                   device_config_cache = [(''10.0.0.2'', bulb_config)],
                   lock_counter = 1, world = 1, trace = []\<rparr>"

section \<open>Vocabulary of the properties\<close>






text \<open>
  The locks entered in a record of calls, in order.
\<close>

fun acquired :: "event list \<Rightarrow> lock list" where
  "acquired [] = []"
| "acquired (EvAcquire l # es) = l # acquired es"
| "acquired (e # es) = acquired es"

text \<open>
  A step that leaves the lock table, the configuration store and the lock counter as
  they are and enters no lock: what every call on the device library is.
\<close>

definition quiet :: "'w state \<Rightarrow> 'w state \<Rightarrow> bool" where
  "quiet s s' \<longleftrightarrow>
     device_lock_cache s' = device_lock_cache s \<and>
     device_config_cache s' = device_config_cache s \<and>
     lock_counter s' = lock_counter s \<and>
     (\<exists>es. trace s' = trace s @ es \<and> acquired es = [])"

text \<open>
  The state after \<open>device_lock = device_lock_cache.get(host, asyncio.Lock())\<close> and
  the entry of \<open>async with device_lock\<close>.
\<close>

definition enter_lock :: "host \<Rightarrow> 'w state \<Rightarrow> 'w state" where
  "enter_lock host s = acquire (fst (lock_get host s)) (snd (lock_get host s))"

text \<open>
  A state reached by entering the host's lock once and then making quiet steps only.
\<close>

definition entered :: "host \<Rightarrow> 'w state \<Rightarrow> 'w state \<Rightarrow> bool" where
  "entered host s s' \<longleftrightarrow>
     device_lock_cache s' = device_lock_cache s \<and>
     device_config_cache s' = device_config_cache s \<and>
     (\<exists>es. trace s' = trace s @ EvAcquire (fst (lock_get host s)) # es \<and> acquired es = [])"

text \<open>
  A library whose \<open>update\<close> and \<open>connect\<close> both raise.
\<close>

definition lib_offline :: "nat kasa" where
  "lib_offline = lib_update_fails\<lparr>connect := (\<lambda>cfg w. (Inl boom, w))\<rparr>"


text \<open>
  The supported combinations of claim C4, in the words of the specification: a target has a
  capability when it has a light module with that feature.
\<close>

definition has_capability :: "device_attrs \<Rightarrow> string \<Rightarrow> bool" where
  "has_capability a name = (case light a of None \<Rightarrow> False | Some m \<Rightarrow> name \<in> set (light_features m))"

definition supported :: "device_attrs \<Rightarrow> string \<Rightarrow> bool" where
  "supported a feature \<longleftrightarrow>
     feature = ''state'' \<or>
     (feature = ''brightness'' \<and> has_capability a ''brightness'') \<or>
     (feature = ''color_temp'' \<and> has_capability a ''color_temp'') \<or>
     (feature = ''fan_speed_level'' \<and> fan a \<noteq> None) \<or>
     ((feature = ''hue'' \<or> feature = ''saturation'') \<and> has_capability a ''hsv'')"

section \<open>Properties of the action dispatcher\<close>

lemma snd_perform:
  "choose_target L h child_num s = Inr c \<Longrightarrow>
   snd (perform_device_action L h feature action v child_num s) = snd (dispatch L h c feature action v s)"
  by (simp add: perform_device_action_def split: prod.split sum.split)

lemma trace_do_call: "trace (snd (do_call L h c r a x s)) = trace s @ [EvCall h c r a x]"
  by (simp add: do_call_def split_def Let_def)

lemma dispatch_brightness:
  "has_feature (light (target_attrs L h c s)) ''brightness'' = Inr True \<Longrightarrow>
   dispatch L h c ''brightness'' action v s = handle_brightness L h c action v s"
  by (simp add: dispatch_def py_and_def)

lemma dispatch_color_temp:
  "has_feature (light (target_attrs L h c s)) ''color_temp'' = Inr True \<Longrightarrow>
   dispatch L h c ''color_temp'' action v s = handle_color_temp L h c action v s"
  by (simp add: dispatch_def py_and_def)

lemma dispatch_hue:
  "has_feature (light (target_attrs L h c s)) ''hsv'' = Inr True \<Longrightarrow>
   dispatch L h c ''hue'' action v s = handle_hsv L h c action ''hue'' v s"
  by (simp add: dispatch_def py_and_def)

lemma dispatch_saturation:
  "has_feature (light (target_attrs L h c s)) ''hsv'' = Inr True \<Longrightarrow>
   dispatch L h c ''saturation'' action v s = handle_hsv L h c action ''saturation'' v s"
  by (simp add: dispatch_def py_and_def)

text \<open>
  Claim C5. A \<open>brightness\<close> dispatch on a target whose light module has the brightness
  feature makes exactly one call on the device library: \<open>turn_off\<close> on the target for the
  value 0, the named action on the light module with the value \<open>n\<close> for \<open>0 < n \<le> 100\<close>,
  and \<open>turn_on\<close> on the target for every other integer. The value is an integer, as the
  parameter of \<open>handle_brightness\<close> is declared.
\<close>

theorem brightness_zero_means_off:
  assumes "choose_target L h child_num s = Inr c"
    and "has_feature (light (target_attrs L h c s)) ''brightness'' = Inr True"
  shows "trace (snd (perform_device_action L h ''brightness'' action (PyInt n) child_num s)) =
           trace s @ [if n = 0 then EvCall h c OnTarget ''turn_off'' NoArg
                      else if 0 < n \<and> n \<le> 100 then EvCall h c OnLight action (IntArg n)
                      else EvCall h c OnTarget ''turn_on'' NoArg]"
proof -
  from assms(2) obtain l where l: "light (target_attrs L h c s) = Some l"
    by (auto simp: has_feature_def split: option.splits)
  show ?thesis
    by (simp add: snd_perform [OF assms(1)] dispatch_brightness [OF assms(2)]
        handle_brightness_def l trace_do_call)
qed

theorem brightness_zero_means_off_witness:
  "choose_target lib_ok 0 None known_state = Inr None \<and>
   has_feature (light (target_attrs lib_ok 0 None known_state)) ''brightness'' = Inr True \<and>
   trace (snd (perform_device_action lib_ok 0 ''brightness'' ''set_brightness'' (PyInt 0) None known_state))
     = [EvCall 0 None OnTarget ''turn_off'' NoArg] \<and>
   trace (snd (perform_device_action lib_ok 0 ''brightness'' ''set_brightness'' (PyInt 40) None known_state))
     = [EvCall 0 None OnLight ''set_brightness'' (IntArg 40)] \<and>
   trace (snd (perform_device_action lib_ok 0 ''brightness'' ''set_brightness'' (PyInt 150) None known_state))
     = [EvCall 0 None OnTarget ''turn_on'' NoArg]"
proof -
  have t: "choose_target lib_ok 0 None known_state = Inr None"
    by (simp add: choose_target_def)
  have f: "has_feature (light (target_attrs lib_ok 0 None known_state)) ''brightness'' = Inr True"
    by (simp add: has_feature_def target_attrs_def lib_ok_def bulb_def bulb_light_def)
  have e: "trace known_state = []" by (simp add: known_state_def)
  show ?thesis
    using t f brightness_zero_means_off [OF t f, of "''set_brightness''" 0]
      brightness_zero_means_off [OF t f, of "''set_brightness''" 40]
      brightness_zero_means_off [OF t f, of "''set_brightness''" 150]
    by (simp add: e)
qed

text \<open>
  Claim C6. A \<open>color_temp\<close> dispatch on a target whose light module has the feature and
  reports the range \<open>(lo, hi)\<close> makes exactly one call: the named action on the light
  module with \<open>max (min n hi) lo\<close>. When \<open>lo \<le> hi\<close> that value lies in the range, and
  it is \<open>lo\<close> for every \<open>n\<close> below \<open>lo\<close>.
\<close>

theorem color_temp_clamped:
  assumes "choose_target L h child_num s = Inr c"
    and "light (target_attrs L h c s) = Some l"
    and "''color_temp'' \<in> set (light_features l)"
    and "valid_temperature_range l = (lo, hi)"
  shows "trace (snd (perform_device_action L h ''color_temp'' action (PyInt n) child_num s)) =
           trace s @ [EvCall h c OnLight action (IntArg (max (min n hi) lo))]
         \<and> (lo \<le> hi \<longrightarrow> lo \<le> max (min n hi) lo \<and> max (min n hi) lo \<le> hi)
         \<and> (lo \<le> hi \<and> n < lo \<longrightarrow> max (min n hi) lo = lo)"
proof -
  have f: "has_feature (light (target_attrs L h c s)) ''color_temp'' = Inr True"
    using assms(2,3) by (simp add: has_feature_def)
  have t: "trace (snd (perform_device_action L h ''color_temp'' action (PyInt n) child_num s)) =
           trace s @ [EvCall h c OnLight action (IntArg (max (min n hi) lo))]"
    by (simp add: snd_perform [OF assms(1)] dispatch_color_temp [OF f]
        handle_color_temp_def assms(2,4) trace_do_call)
  have a: "lo \<le> hi \<longrightarrow> lo \<le> max (min n hi) lo \<and> max (min n hi) lo \<le> hi" by linarith
  have b: "lo \<le> hi \<and> n < lo \<longrightarrow> max (min n hi) lo = lo" by linarith
  from t a b show ?thesis by blast
qed

theorem color_temp_clamped_witness:
  "choose_target lib_ok 0 None known_state = Inr None \<and>
   light (target_attrs lib_ok 0 None known_state) = Some bulb_light \<and>
   ''color_temp'' \<in> set (light_features bulb_light) \<and>
   valid_temperature_range bulb_light = (2500, 6500) \<and>
   trace (snd (perform_device_action lib_ok 0 ''color_temp'' ''set_color_temp'' (PyInt 1000) None known_state))
     = [EvCall 0 None OnLight ''set_color_temp'' (IntArg 2500)]"
proof -
  have t: "choose_target lib_ok 0 None known_state = Inr None"
    by (simp add: choose_target_def)
  have l: "light (target_attrs lib_ok 0 None known_state) = Some bulb_light"
    by (simp add: target_attrs_def lib_ok_def bulb_def)
  have f: "''color_temp'' \<in> set (light_features bulb_light)"
    by (simp add: bulb_light_def)
  have r: "valid_temperature_range bulb_light = (2500, 6500)"
    by (simp add: bulb_light_def)
  have e: "trace known_state = []" by (simp add: known_state_def)
  show ?thesis
    using t l f r color_temp_clamped [OF t l f r, of "''set_color_temp''" 1000]
    by (simp add: e)
qed

text \<open>
  Claim C7. A \<open>hue\<close> or \<open>saturation\<close> dispatch on a target whose light module has the
  \<open>hsv\<close> feature reads the current triple \<open>(h0, s0, v0)\<close> and makes exactly one call:
  the named action on the light module with the triple in which the addressed component
  is the supplied value \<open>value[feature]\<close> and the other two are unchanged.
\<close>

theorem hsv_partial_update:
  assumes "choose_target L h child_num s = Inr c"
    and "light (target_attrs L h c s) = Some l"
    and "''hsv'' \<in> set (light_features l)"
    and "hsv l = (h0, s0, v0)"
    and "feature = ''hue'' \<or> feature = ''saturation''"
    and "subscript v feature = Inr x"
  shows "trace (snd (perform_device_action L h feature action v child_num s)) =
           trace s @ [EvCall h c OnLight action
                        (TupleArg (if feature = ''hue'' then (x, s0, v0) else (h0, x, v0)))]"
proof -
  have f: "has_feature (light (target_attrs L h c s)) ''hsv'' = Inr True"
    using assms(2,3) by (simp add: has_feature_def)
  from assms(5) show ?thesis
  proof
    assume hue: "feature = ''hue''"
    with assms(6) have "subscript v ''hue'' = Inr x" by simp
    then show ?thesis
      by (simp add: hue snd_perform [OF assms(1)] dispatch_hue [OF f]
          handle_hsv_def assms(2,4) trace_do_call)
  next
    assume sat: "feature = ''saturation''"
    with assms(6) have "subscript v ''saturation'' = Inr x" by simp
    then show ?thesis
      by (simp add: sat snd_perform [OF assms(1)] dispatch_saturation [OF f]
          handle_hsv_def assms(2,4) trace_do_call)
  qed
qed

theorem hsv_partial_update_witness:
  "choose_target lib_ok 0 None known_state = Inr None \<and>
   light (target_attrs lib_ok 0 None known_state) = Some bulb_light \<and>
   ''hsv'' \<in> set (light_features bulb_light) \<and>
   hsv bulb_light = (120, 80, 50) \<and>
   subscript (PyDict [(''hue'', 10)]) ''hue'' = Inr 10 \<and>
   trace (snd (perform_device_action lib_ok 0 ''hue'' ''set_hsv'' (PyDict [(''hue'', 10)]) None known_state))
     = [EvCall 0 None OnLight ''set_hsv'' (TupleArg (10, 80, 50))]"
proof -
  have t: "choose_target lib_ok 0 None known_state = Inr None"
    by (simp add: choose_target_def)
  have l: "light (target_attrs lib_ok 0 None known_state) = Some bulb_light"
    by (simp add: target_attrs_def lib_ok_def bulb_def)
  have f: "''hsv'' \<in> set (light_features bulb_light)"
    by (simp add: bulb_light_def)
  have r: "hsv bulb_light = (120, 80, 50)"
    by (simp add: bulb_light_def)
  have k: "''hue'' = ''hue'' \<or> ''hue'' = ''saturation''" by simp
  have v: "subscript (PyDict [(''hue'', 10)]) ''hue'' = Inr 10"
    by (simp add: subscript_def)
  have e: "trace known_state = []" by (simp add: known_state_def)
  show ?thesis
    using t l f r v hsv_partial_update [OF t l f r k v, of "''set_hsv''"]
    by (simp add: e)
qed

section \<open>Properties of the session resolver\<close>

text \<open>
  Claim C10. When \<open>get_or_connect_device\<close> finds no handle for the host in the cache
  and \<open>Device.connect\<close> raises, the exception of \<open>connect\<close> is the result, no handle
  is returned, and afterwards the cache has no entry for the host. No handle exists at
  that point, so the only call made is the \<open>connect\<close>.
\<close>

theorem failed_connect_leaves_no_entry:
  assumes "map_of (device_cache s) host = None"
    and "connect L cfg (world s) = (Inl e, w)"
  shows "get_or_connect_device L host cfg s =
           (Inl e, s\<lparr>world := w, trace := trace s @ [EvConnect cfg],
                     device_cache := AList.delete host (device_cache s)\<rparr>)
         \<and> map_of (device_cache (snd (get_or_connect_device L host cfg s))) host = None"
  using assms
  by (simp add: get_or_connect_device_def do_connect_def cache_pop_def delete_conv')

theorem failed_connect_leaves_no_entry_witness:
  "map_of (device_cache fresh_state) ''10.0.0.2'' = None \<and>
   connect lib_connect_fails (DeviceConfig bulb_config) (world fresh_state) = (Inl boom, 0) \<and>
   fst (get_or_connect_device lib_connect_fails ''10.0.0.2'' (DeviceConfig bulb_config) fresh_state)
     = Inl boom \<and>
   map_of (device_cache (snd (get_or_connect_device lib_connect_fails ''10.0.0.2''
      (DeviceConfig bulb_config) fresh_state))) ''10.0.0.2'' = None"
proof -
  have a: "map_of (device_cache fresh_state) ''10.0.0.2'' = None"
    by (simp add: fresh_state_def)
  have b: "connect lib_connect_fails (DeviceConfig bulb_config) (world fresh_state) = (Inl boom, 0)"
    by (simp add: lib_connect_fails_def lib_ok_def fresh_state_def)
  show ?thesis
    using a b failed_connect_leaves_no_entry [OF a b] by (simp add: fresh_state_def)
qed

section \<open>Properties of the serializer\<close>










section \<open>Steps that enter no lock\<close>

lemma acquired_append: "acquired (xs @ ys) = acquired xs @ acquired ys"
  by (induction xs rule: acquired.induct) simp_all

lemma quiet_refl: "quiet s s"
  by (simp add: quiet_def)

lemma quiet_trans: "quiet a b \<Longrightarrow> quiet b c \<Longrightarrow> quiet a c"
  by (auto simp: quiet_def acquired_append)

lemma quiet_acquired: "quiet s s' \<Longrightarrow> acquired (trace s') = acquired (trace s)"
  by (auto simp: quiet_def acquired_append)

lemma quiet_do_connect: "do_connect L cfg s = (r, s') \<Longrightarrow> quiet s s'"
  by (auto simp: do_connect_def quiet_def split: prod.splits)

lemma quiet_do_update: "do_update L h s = (r, s') \<Longrightarrow> quiet s s'"
  by (auto simp: do_update_def quiet_def split: prod.splits)

lemma quiet_do_disconnect: "do_disconnect L h s = (r, s') \<Longrightarrow> quiet s s'"
  by (auto simp: do_disconnect_def quiet_def split: prod.splits)

lemma quiet_do_call: "do_call L h c rc a x s = (r, s') \<Longrightarrow> quiet s s'"
  by (auto simp: do_call_def quiet_def split: prod.splits)

lemma quiet_cache_pop: "quiet s (cache_pop host s)"
  by (simp add: quiet_def cache_pop_def)

lemma quiet_release: "quiet s (release l s)"
  by (simp add: quiet_def release_def)

lemma quiet_handle_brightness: "handle_brightness L h c a v s = (r, s') \<Longrightarrow> quiet s s'"
  by (auto simp: handle_brightness_def quiet_refl split: pyvalue.splits if_splits option.splits
      dest: quiet_do_call)

lemma quiet_handle_color_temp: "handle_color_temp L h c a v s = (r, s') \<Longrightarrow> quiet s s'"
  by (auto simp: handle_color_temp_def quiet_refl split: pyvalue.splits option.splits prod.splits
      dest: quiet_do_call)

lemma quiet_handle_fan_speed_level: "handle_fan_speed_level L h c a v s = (r, s') \<Longrightarrow> quiet s s'"
  by (auto simp: handle_fan_speed_level_def quiet_refl split: pyvalue.splits if_splits option.splits
      dest: quiet_do_call)

lemma quiet_handle_hsv: "handle_hsv L h c a f v s = (r, s') \<Longrightarrow> quiet s s'"
  by (auto simp: handle_hsv_def quiet_refl split: option.splits prod.splits if_splits sum.splits
      dest: quiet_do_call)

lemma quiet_dispatch: "dispatch L h c f a v s = (r, s') \<Longrightarrow> quiet s s'"
  unfolding dispatch_def Let_def
  by (auto simp: quiet_refl split: if_splits sum.splits bool.splits
      dest: quiet_do_call quiet_handle_brightness quiet_handle_color_temp
        quiet_handle_fan_speed_level quiet_handle_hsv)

lemma quiet_perform: "perform_device_action L d f a v c s = (r, s') \<Longrightarrow> quiet s s'"
  by (auto simp: perform_device_action_def quiet_refl split: sum.splits prod.splits
      dest: quiet_dispatch)

lemma quiet_get_or_connect: "get_or_connect_device L host cfg s = (r, s') \<Longrightarrow> quiet s s'"
proof (cases "map_of (device_cache s) host")
  case (Some d)
  then show "get_or_connect_device L host cfg s = (r, s') \<Longrightarrow> quiet s s'"
    by (auto simp: get_or_connect_device_def quiet_refl)
next
  case None
  assume g: "get_or_connect_device L host cfg s = (r, s')"
  obtain rc sc where c: "do_connect L cfg s = (rc, sc)" by force
  have q: "quiet s sc" by (rule quiet_do_connect [OF c])
  show "quiet s s'"
  proof (cases rc)
    case (Inl e)
    with g None c have "s' = cache_pop host sc" by (simp add: get_or_connect_device_def)
    with q quiet_cache_pop [of sc host] show ?thesis by (auto intro: quiet_trans)
  next
    case (Inr d)
    with g None c have "s' = sc\<lparr>device_cache := AList.update host d (device_cache sc)\<rparr>"
      by (simp add: get_or_connect_device_def)
    with q show ?thesis by (simp add: quiet_def)
  qed
qed

lemma quiet_give_up: "give_up L host vars e s = (r, s') \<Longrightarrow> quiet s s'"
proof (cases "var_device vars")
  case None
  then show "give_up L host vars e s = (r, s') \<Longrightarrow> quiet s s'"
    by (auto simp: give_up_def quiet_refl)
next
  case (Some d)
  assume g: "give_up L host vars e s = (r, s')"
  obtain rd sd where c: "do_disconnect L d s = (rd, sd)" by force
  have q: "quiet s sd" by (rule quiet_do_disconnect [OF c])
  show "quiet s s'"
  proof (cases rd)
    case (Inl e')
    with g Some c have "s' = sd" by (simp add: give_up_def)
    with q show ?thesis by simp
  next
    case (Inr u)
    with g Some c have "s' = cache_pop host sd" by (simp add: give_up_def)
    with q quiet_cache_pop [of sd host] show ?thesis by (auto intro: quiet_trans)
  qed
qed

section \<open>The two attempts of an operation\<close>


lemma lock_get_cache_pop: "fst (lock_get host (cache_pop h s)) = fst (lock_get host s)"
  by (simp add: cache_pop_def lock_get_def new_lock_def)

lemma enter_lock_fields:
  "device_lock_cache (enter_lock host s) = device_lock_cache s"
  "device_config_cache (enter_lock host s) = device_config_cache s"
  "device_cache (enter_lock host s) = device_cache s"
  "world (enter_lock host s) = world s"
  "trace (enter_lock host s) = trace s @ [EvAcquire (fst (lock_get host s))]"
  by (simp_all add: enter_lock_def acquire_def lock_get_def new_lock_def)

lemma control_try_cases:
  assumes t: "control_device_try L host f a v c s = ((vars, r), s1)"
  obtains
    (no_config) e where "from_dict L (map_of (device_config_cache s) host) = Inl e"
      and "var_device vars = None" and "r = Inl e" and "s1 = s"
  | (no_device) cfg e s3 where "from_dict L (map_of (device_config_cache s) host) = Inr cfg"
      and "get_or_connect_device L host cfg (enter_lock host s) = (Inl e, s3)"
      and "var_device vars = None" and "r = Inl e" and "s1 = release (fst (lock_get host s)) s3"
  | (device) cfg d s3 s4 where "from_dict L (map_of (device_config_cache s) host) = Inr cfg"
      and "get_or_connect_device L host cfg (enter_lock host s) = (Inr d, s3)"
      and "perform_device_action L d f a v c s3 = (r, s4)"
      and "vars = \<lparr>var_device = Some d, var_device_config = Some cfg\<rparr>"
      and "s1 = release (fst (lock_get host s)) s4"
proof (cases "from_dict L (map_of (device_config_cache s) host)")
  case (Inl e)
  with t show thesis
    by (intro no_config [of e]) (auto simp: control_device_try_def)
next
  case (Inr cfg)
  obtain r3 s3 where g: "get_or_connect_device L host cfg (enter_lock host s) = (r3, s3)"
    by force
  show thesis
  proof (cases r3)
    case (Inl e)
    with t Inr g show thesis
      by (intro no_device [of cfg e s3])
        (auto simp: control_device_try_def Let_def split_def enter_lock_def)
  next
    case r3: (Inr d)
    obtain r4 s4 where p: "perform_device_action L d f a v c s3 = (r4, s4)" by force
    with t Inr g r3 show thesis
      by (intro device [of cfg d s3 s4])
        (auto simp: control_device_try_def Let_def split_def enter_lock_def)
  qed
qed

lemma control_retry_cases:
  assumes t: "control_device_retry L host f a v c vars s = ((vars', r), s2)"
    and d: "var_device vars = Some h" and k: "var_device_config vars = Some cfg"
  obtains
    (disconnect_raised) e where "do_disconnect L h s = (Inl e, s2)"
      and "r = Inl e" and "vars' = vars"
  | (connect_raised) sd e s5 where "do_disconnect L h s = (Inr (), sd)"
      and "get_or_connect_device L host cfg (enter_lock host (cache_pop host sd)) = (Inl e, s5)"
      and "r = Inl e" and "vars' = vars"
      and "s2 = release (fst (lock_get host (cache_pop host sd))) s5"
  | (retried) sd d' s5 s6 where "do_disconnect L h s = (Inr (), sd)"
      and "get_or_connect_device L host cfg (enter_lock host (cache_pop host sd)) = (Inr d', s5)"
      and "perform_device_action L d' f a v c s5 = (r, s6)"
      and "vars' = vars\<lparr>var_device := Some d'\<rparr>"
      and "s2 = release (fst (lock_get host (cache_pop host sd))) s6"
proof -
  obtain rd sd where dc: "do_disconnect L h s = (rd, sd)" by force
  show thesis
  proof (cases rd)
    case (Inl e)
    with t d dc show thesis
      by (intro disconnect_raised [of e]) (auto simp: control_device_retry_def)
  next
    case rd: (Inr u)
    obtain r5 s5 where g:
      "get_or_connect_device L host cfg (enter_lock host (cache_pop host sd)) = (r5, s5)"
      by force
    show thesis
    proof (cases r5)
      case (Inl e)
      with t d k dc rd g show thesis
        by (intro connect_raised [of sd e s5])
          (auto simp: control_device_retry_def Let_def split_def enter_lock_def)
    next
      case r5: (Inr d')
      obtain r6 s6 where p: "perform_device_action L d' f a v c s5 = (r6, s6)" by force
      with t d k dc rd g r5 show thesis
        by (intro retried [of sd d' s5 s6])
          (auto simp: control_device_retry_def Let_def split_def enter_lock_def)
    qed
  qed
qed

lemma sys_info_try_cases:
  assumes t: "get_sys_info_try L host s = ((vars, r), s1)"
  obtains
    (no_config) e where "from_dict L (map_of (device_config_cache s) host) = Inl e"
      and "var_device vars = None" and "r = Inl e" and "s1 = s"
  | (no_device) cfg e s3 where "from_dict L (map_of (device_config_cache s) host) = Inr cfg"
      and "get_or_connect_device L host cfg (enter_lock host s) = (Inl e, s3)"
      and "var_device vars = None" and "r = Inl e" and "s1 = release (fst (lock_get host s)) s3"
  | (device) cfg d s3 ru s4 where "from_dict L (map_of (device_config_cache s) host) = Inr cfg"
      and "get_or_connect_device L host cfg (enter_lock host s) = (Inr d, s3)"
      and "do_update L d s3 = (ru, s4)"
      and "r = (case ru of Inl e \<Rightarrow> Inl e
                 | Inr u \<Rightarrow> (case custom_serializer (attrs L d (world s4)) of
                               Inl e \<Rightarrow> Inl e | Inr i \<Rightarrow> Inr (sys_info_result i)))"
      and "vars = \<lparr>var_device = Some d, var_device_config = Some cfg\<rparr>"
      and "s1 = release (fst (lock_get host s)) s4"
proof (cases "from_dict L (map_of (device_config_cache s) host)")
  case (Inl e)
  with t show thesis
    by (intro no_config [of e]) (auto simp: get_sys_info_try_def)
next
  case (Inr cfg)
  obtain r3 s3 where g: "get_or_connect_device L host cfg (enter_lock host s) = (r3, s3)"
    by force
  show thesis
  proof (cases r3)
    case (Inl e)
    with t Inr g show thesis
      by (intro no_device [of cfg e s3])
        (auto simp: get_sys_info_try_def Let_def split_def enter_lock_def)
  next
    case r3: (Inr d)
    obtain ru s4 where p: "do_update L d s3 = (ru, s4)" by force
    with t Inr g r3 show thesis
      by (intro device [of cfg d s3 ru s4])
        (auto simp: get_sys_info_try_def Let_def split_def enter_lock_def
          split: sum.splits)
  qed
qed

lemma sys_info_retry_cases:
  assumes t: "get_sys_info_retry L host vars s = ((vars', r), s2)"
    and d: "var_device vars = Some h" and k: "var_device_config vars = Some cfg"
  obtains
    (disconnect_raised) e where "do_disconnect L h s = (Inl e, s2)"
      and "r = Inl e" and "vars' = vars"
  | (connect_raised) sd e s5 where "do_disconnect L h s = (Inr (), sd)"
      and "get_or_connect_device L host cfg (enter_lock host (cache_pop host sd)) = (Inl e, s5)"
      and "r = Inl e" and "vars' = vars"
      and "s2 = release (fst (lock_get host (cache_pop host sd))) s5"
  | (retried) sd d' s5 where "do_disconnect L h s = (Inr (), sd)"
      and "get_or_connect_device L host cfg (enter_lock host (cache_pop host sd)) = (Inr d', s5)"
      and "r = (case custom_serializer (attrs L d' (world s5)) of
                  Inl e \<Rightarrow> Inl e | Inr i \<Rightarrow> Inr (sys_info_result i))"
      and "vars' = vars\<lparr>var_device := Some d'\<rparr>"
      and "s2 = release (fst (lock_get host (cache_pop host sd))) s5"
proof -
  obtain rd sd where dc: "do_disconnect L h s = (rd, sd)" by force
  show thesis
  proof (cases rd)
    case (Inl e)
    with t d dc show thesis
      by (intro disconnect_raised [of e]) (auto simp: get_sys_info_retry_def)
  next
    case rd: (Inr u)
    obtain r5 s5 where g:
      "get_or_connect_device L host cfg (enter_lock host (cache_pop host sd)) = (r5, s5)"
      by force
    show thesis
    proof (cases r5)
      case (Inl e)
      with t d k dc rd g show thesis
        by (intro connect_raised [of sd e s5])
          (auto simp: get_sys_info_retry_def Let_def split_def enter_lock_def)
    next
      case r5: (Inr d')
      with t d k dc rd g show thesis
        by (intro retried [of sd d' s5])
          (auto simp: get_sys_info_retry_def Let_def split_def enter_lock_def
            split: sum.splits)
    qed
  qed
qed

lemma entered_enter_lock: "quiet (enter_lock host s) s' \<Longrightarrow> entered host s s'"
  by (auto simp: quiet_def entered_def enter_lock_fields)

lemma entered_quiet: "entered host s s' \<Longrightarrow> quiet s' s'' \<Longrightarrow> entered host s s''"
  by (auto simp: quiet_def entered_def acquired_append)

lemma entered_release: "entered host s s' \<Longrightarrow> entered host s (release l s')"
  by (rule entered_quiet [OF _ quiet_release])

lemma entered_cache_pop: "entered host (cache_pop h s) s' \<Longrightarrow> entered host s s'"
  by (simp add: entered_def lock_get_cache_pop) (simp add: cache_pop_def)

lemma entered_acquired:
  "entered host s s' \<Longrightarrow> acquired (trace s') = acquired (trace s) @ [fst (lock_get host s)]"
  by (auto simp: entered_def acquired_append)



lemma trace_do_disconnect: "do_disconnect L h s = (r, s') \<Longrightarrow> trace s' = trace s @ [EvDisconnect h]"
  by (auto simp: do_disconnect_def split: prod.splits)


lemma cache_pop_no_entry: "map_of (device_cache (cache_pop host s)) host = None"
  by (simp add: cache_pop_def delete_conv')

lemma do_disconnect_ok:
  "\<forall>h w. fst (disconnect L h w) = Inr () \<Longrightarrow>
   do_disconnect L h s = (Inr (), snd (do_disconnect L h s))"
  by (simp add: do_disconnect_def split_def)

lemma give_up_ok:
  assumes "\<forall>h w. fst (disconnect L h w) = Inr ()" and "var_device vars = Some d"
  shows "give_up L host vars e s = (Inr (error_result e), cache_pop host (snd (do_disconnect L d s)))"
proof -
  obtain rd sd where c: "do_disconnect L d s = (rd, sd)" by force
  with do_disconnect_ok [OF assms(1), of d s] have "rd = Inr ()" by simp
  with c assms(2) show ?thesis by (simp add: give_up_def)
qed

lemma control_try_entered:
  assumes t: "control_device_try L host f a v c s = ((vars, r), s1)"
    and d: "var_device vars = Some h"
  shows "entered host s s1 \<and> (\<exists>cfg. var_device_config vars = Some cfg)"
  using t
proof (cases rule: control_try_cases)
  case (no_config e)
  with d show ?thesis by simp
next
  case (no_device cfg e s3)
  with d show ?thesis by simp
next
  case (device cfg d' s3 s4)
  have "quiet (enter_lock host s) s4"
    using quiet_get_or_connect [OF device(2)] quiet_perform [OF device(3)]
    by (rule quiet_trans)
  then show ?thesis
    by (simp add: device(4,5) entered_release entered_enter_lock)
qed


lemma control_retry_entered:
  assumes t: "control_device_retry L host f a v c vars s1 = ((vars', r), s2)"
    and d: "var_device vars = Some h" and k: "var_device_config vars = Some cfg"
    and dc: "do_disconnect L h s1 = (Inr u, sd)"
  shows "entered host sd s2 \<and> var_device vars' \<noteq> None"
  using t d k
proof (cases rule: control_retry_cases)
  case (disconnect_raised e)
  with dc show ?thesis by simp
next
  case (connect_raised sd' e s5)
  with dc have sd: "sd' = sd" by simp
  have "quiet (enter_lock host (cache_pop host sd)) s5"
    by (rule quiet_get_or_connect [OF connect_raised(2) [unfolded sd]])
  then have "entered host sd s5"
    by (rule entered_cache_pop [OF entered_enter_lock])
  then show ?thesis
    using d by (simp add: sd connect_raised(4,5) entered_release)
next
  case (retried sd' d' s5 s6)
  with dc have sd: "sd' = sd" by simp
  have "quiet (enter_lock host (cache_pop host sd)) s6"
    using quiet_get_or_connect [OF retried(2) [unfolded sd]] quiet_perform [OF retried(3)]
    by (rule quiet_trans)
  then have "entered host sd s6"
    by (rule entered_cache_pop [OF entered_enter_lock])
  then show ?thesis
    by (simp add: sd retried(4,5) entered_release)
qed

lemma control_retry_once:
  assumes t: "control_device_try L host f a v c s = ((vars, Inl e), s1)"
    and d: "var_device vars = Some h"
    and disc: "\<forall>h w. fst (disconnect L h w) = Inr ()"
  shows "\<exists>r s'. control_device L host f a v c s = (Inr r, s')
           \<and> length (acquired (trace s')) = length (acquired (trace s)) + 2
           \<and> (\<exists>es. trace s' = trace s1 @ EvDisconnect h # es)
           \<and> (case control_device_retry L host f a v c vars s1 of
                ((vars', Inl e'), s2) \<Rightarrow> r = error_result e' \<and> map_of (device_cache s') host = None
              | ((vars', Inr r'), s2) \<Rightarrow> r = r' \<and> s' = s2)"
proof -
  from control_try_entered [OF t d] obtain cfg
    where en: "entered host s s1" and k: "var_device_config vars = Some cfg" by blast
  define sd where "sd = snd (do_disconnect L h s1)"
  have dc: "do_disconnect L h s1 = (Inr (), sd)"
    unfolding sd_def by (rule do_disconnect_ok [OF disc])
  obtain vars' r2 s2 where rt: "control_device_retry L host f a v c vars s1 = ((vars', r2), s2)"
    by (cases "control_device_retry L host f a v c vars s1") auto
  from control_retry_entered [OF rt d k dc]
  have en2: "entered host sd s2" and dv: "var_device vars' \<noteq> None" by simp_all
  have a1: "acquired (trace s1) = acquired (trace s) @ [fst (lock_get host s)]"
    by (rule entered_acquired [OF en])
  have tsd: "trace sd = trace s1 @ [EvDisconnect h]" by (rule trace_do_disconnect [OF dc])
  have a2: "length (acquired (trace s2)) = length (acquired (trace s)) + 2"
    by (simp add: entered_acquired [OF en2] tsd acquired_append a1)
  from en2 obtain es where es: "trace s2 = trace s1 @ EvDisconnect h # EvAcquire (fst (lock_get host sd)) # es"
    by (auto simp: entered_def tsd)
  show ?thesis
  proof (cases r2)
    case (Inr r')
    with t rt have "control_device L host f a v c s = (Inr r', s2)"
      by (simp add: control_device_def)
    with a2 es rt Inr show ?thesis by simp
  next
    case (Inl e')
    from dv obtain d' where d': "var_device vars' = Some d'" by auto
    define sg where "sg = snd (do_disconnect L d' s2)"
    have g: "give_up L host vars' e' s2 = (Inr (error_result e'), cache_pop host sg)"
      unfolding sg_def by (rule give_up_ok [OF disc d'])
    with t rt Inl have cd: "control_device L host f a v c s = (Inr (error_result e'), cache_pop host sg)"
      by (simp add: control_device_def)
    have q: "quiet s2 (cache_pop host sg)" by (rule quiet_give_up [OF g])
    have "length (acquired (trace (cache_pop host sg))) = length (acquired (trace s)) + 2"
      by (simp add: quiet_acquired [OF q] a2)
    moreover from q es have "\<exists>es'. trace (cache_pop host sg) = trace s1 @ EvDisconnect h # es'"
      by (auto simp: quiet_def)
    ultimately show ?thesis
      using cd rt Inl by (simp add: cache_pop_no_entry)
  qed
qed

lemma sys_info_try_entered:
  assumes t: "get_sys_info_try L host s = ((vars, r), s1)"
    and d: "var_device vars = Some h"
  shows "entered host s s1 \<and> (\<exists>cfg. var_device_config vars = Some cfg)"
  using t
proof (cases rule: sys_info_try_cases)
  case (no_config e)
  with d show ?thesis by simp
next
  case (no_device cfg e s3)
  with d show ?thesis by simp
next
  case (device cfg d' s3 ru s4)
  have "quiet (enter_lock host s) s4"
    using quiet_get_or_connect [OF device(2)] quiet_do_update [OF device(3)]
    by (rule quiet_trans)
  then show ?thesis
    by (simp add: device(5,6) entered_release entered_enter_lock)
qed


lemma sys_info_retry_entered:
  assumes t: "get_sys_info_retry L host vars s1 = ((vars', r), s2)"
    and d: "var_device vars = Some h" and k: "var_device_config vars = Some cfg"
    and dc: "do_disconnect L h s1 = (Inr u, sd)"
  shows "entered host sd s2 \<and> var_device vars' \<noteq> None"
  using t d k
proof (cases rule: sys_info_retry_cases)
  case (disconnect_raised e)
  with dc show ?thesis by simp
next
  case (connect_raised sd' e s5)
  with dc have sd: "sd' = sd" by simp
  have "quiet (enter_lock host (cache_pop host sd)) s5"
    by (rule quiet_get_or_connect [OF connect_raised(2) [unfolded sd]])
  then have "entered host sd s5"
    by (rule entered_cache_pop [OF entered_enter_lock])
  then show ?thesis
    using d by (simp add: sd connect_raised(4,5) entered_release)
next
  case (retried sd' d' s5)
  with dc have sd: "sd' = sd" by simp
  have "quiet (enter_lock host (cache_pop host sd)) s5"
    by (rule quiet_get_or_connect [OF retried(2) [unfolded sd]])
  then have "entered host sd s5"
    by (rule entered_cache_pop [OF entered_enter_lock])
  then show ?thesis
    by (simp add: sd retried(4,5) entered_release)
qed

lemma sys_info_retry_once:
  assumes t: "get_sys_info_try L host s = ((vars, Inl e), s1)"
    and d: "var_device vars = Some h"
    and disc: "\<forall>h w. fst (disconnect L h w) = Inr ()"
  shows "\<exists>r s'. get_sys_info L host s = (Inr r, s')
           \<and> length (acquired (trace s')) = length (acquired (trace s)) + 2
           \<and> (\<exists>es. trace s' = trace s1 @ EvDisconnect h # es)
           \<and> (case get_sys_info_retry L host vars s1 of
                ((vars', Inl e'), s2) \<Rightarrow> r = error_result e' \<and> map_of (device_cache s') host = None
              | ((vars', Inr r'), s2) \<Rightarrow> r = r' \<and> s' = s2)"
proof -
  from sys_info_try_entered [OF t d] obtain cfg
    where en: "entered host s s1" and k: "var_device_config vars = Some cfg" by blast
  define sd where "sd = snd (do_disconnect L h s1)"
  have dc: "do_disconnect L h s1 = (Inr (), sd)"
    unfolding sd_def by (rule do_disconnect_ok [OF disc])
  obtain vars' r2 s2 where rt: "get_sys_info_retry L host vars s1 = ((vars', r2), s2)"
    by (cases "get_sys_info_retry L host vars s1") auto
  from sys_info_retry_entered [OF rt d k dc]
  have en2: "entered host sd s2" and dv: "var_device vars' \<noteq> None" by simp_all
  have a1: "acquired (trace s1) = acquired (trace s) @ [fst (lock_get host s)]"
    by (rule entered_acquired [OF en])
  have tsd: "trace sd = trace s1 @ [EvDisconnect h]" by (rule trace_do_disconnect [OF dc])
  have a2: "length (acquired (trace s2)) = length (acquired (trace s)) + 2"
    by (simp add: entered_acquired [OF en2] tsd acquired_append a1)
  from en2 obtain es where es: "trace s2 = trace s1 @ EvDisconnect h # EvAcquire (fst (lock_get host sd)) # es"
    by (auto simp: entered_def tsd)
  show ?thesis
  proof (cases r2)
    case (Inr r')
    with t rt have "get_sys_info L host s = (Inr r', s2)"
      by (simp add: get_sys_info_def)
    with a2 es rt Inr show ?thesis by simp
  next
    case (Inl e')
    from dv obtain d' where d': "var_device vars' = Some d'" by auto
    define sg where "sg = snd (do_disconnect L d' s2)"
    have g: "give_up L host vars' e' s2 = (Inr (error_result e'), cache_pop host sg)"
      unfolding sg_def by (rule give_up_ok [OF disc d'])
    with t rt Inl have cd: "get_sys_info L host s = (Inr (error_result e'), cache_pop host sg)"
      by (simp add: get_sys_info_def)
    have q: "quiet s2 (cache_pop host sg)" by (rule quiet_give_up [OF g])
    have "length (acquired (trace (cache_pop host sg))) = length (acquired (trace s)) + 2"
      by (simp add: quiet_acquired [OF q] a2)
    moreover from q es have "\<exists>es'. trace (cache_pop host sg) = trace s1 @ EvDisconnect h # es'"
      by (auto simp: quiet_def)
    ultimately show ?thesis
      using cd rt Inl by (simp add: cache_pop_no_entry)
  qed
qed

text \<open>
  Claim C2, as amended. Suppose no \<open>disconnect\<close> call raises. When the first attempt of
  \<open>control_device\<close> or of \<open>get_sys_info\<close> fails after \<open>device\<close> was assigned the handle
  \<open>h\<close>, the next call is \<open>h.disconnect()\<close>, the operation returns a value and raises
  nothing, and the host's lock is entered exactly twice in the request: by the first attempt
  and by the one retry. When the retry fails too, the value is \<open>{"error": str(e)}\<close> for
  the exception of the retry and the cache has no entry for the host; when the retry
  succeeds, its result and state are those of the operation.
\<close>

theorem retry_exactly_once:
  assumes disc: "\<forall>h w. fst (disconnect L h w) = Inr ()"
  shows "(control_device_try L host f a v c s = ((vars, Inl e), s1) \<and> var_device vars = Some h \<longrightarrow>
          (\<exists>r s'. control_device L host f a v c s = (Inr r, s')
           \<and> length (acquired (trace s')) = length (acquired (trace s)) + 2
           \<and> (\<exists>es. trace s' = trace s1 @ EvDisconnect h # es)
           \<and> (case control_device_retry L host f a v c vars s1 of
                ((vars', Inl e'), s2) \<Rightarrow> r = error_result e' \<and> map_of (device_cache s') host = None
              | ((vars', Inr r'), s2) \<Rightarrow> r = r' \<and> s' = s2)))
       \<and> (get_sys_info_try L host s = ((vars, Inl e), s1) \<and> var_device vars = Some h \<longrightarrow>
          (\<exists>r s'. get_sys_info L host s = (Inr r, s')
           \<and> length (acquired (trace s')) = length (acquired (trace s)) + 2
           \<and> (\<exists>es. trace s' = trace s1 @ EvDisconnect h # es)
           \<and> (case get_sys_info_retry L host vars s1 of
                ((vars', Inl e'), s2) \<Rightarrow> r = error_result e' \<and> map_of (device_cache s') host = None
              | ((vars', Inr r'), s2) \<Rightarrow> r = r' \<and> s' = s2)))"
  using control_retry_once [OF _ _ disc] sys_info_retry_once [OF _ _ disc]
  by blast

theorem retry_exactly_once_witness:
  "(\<forall>h w. fst (disconnect lib_invoke_fails h w) = Inr ()) \<and>
   fst (control_device lib_invoke_fails ''10.0.0.2'' ''brightness'' ''set_brightness'' (PyInt 40) None
          known_state) = Inr (error_result boom) \<and>
   length (acquired (trace (snd (control_device lib_invoke_fails ''10.0.0.2'' ''brightness''
          ''set_brightness'' (PyInt 40) None known_state)))) = 2 \<and>
   map_of (device_cache (snd (control_device lib_invoke_fails ''10.0.0.2'' ''brightness''
          ''set_brightness'' (PyInt 40) None known_state))) ''10.0.0.2'' = None \<and>
   (\<forall>h w. fst (disconnect lib_offline h w) = Inr ()) \<and>
   fst (get_sys_info lib_offline ''10.0.0.2'' known_state) = Inr (error_result boom) \<and>
   length (acquired (trace (snd (get_sys_info lib_offline ''10.0.0.2'' known_state)))) = 2 \<and>
   map_of (device_cache (snd (get_sys_info lib_offline ''10.0.0.2'' known_state))) ''10.0.0.2'' = None"
proof -
  define vars where "vars = \<lparr>var_device = Some (0::nat), var_device_config = Some (DeviceConfig bulb_config)\<rparr>"
  have d: "var_device vars = Some 0" by (simp add: vars_def)
  have e: "length (acquired (trace known_state)) = 0" by (simp add: known_state_def)
  have disc1: "\<forall>h w. fst (disconnect lib_invoke_fails h w) = Inr ()"
    by (simp add: lib_invoke_fails_def lib_ok_def)
  define s1 where "s1 = snd (control_device_try lib_invoke_fails ''10.0.0.2'' ''brightness''
     ''set_brightness'' (PyInt 40) None known_state)"
  have t1: "control_device_try lib_invoke_fails ''10.0.0.2'' ''brightness'' ''set_brightness''
     (PyInt 40) None known_state = ((vars, Inl boom), s1)"
    unfolding vars_def s1_def by code_simp
  have r1: "snd (fst (control_device_retry lib_invoke_fails ''10.0.0.2'' ''brightness''
     ''set_brightness'' (PyInt 40) None vars s1)) = Inl boom"
    unfolding vars_def s1_def by code_simp
  have o1: "fst (control_device lib_invoke_fails ''10.0.0.2'' ''brightness'' ''set_brightness''
               (PyInt 40) None known_state) = Inr (error_result boom) \<and>
     length (acquired (trace (snd (control_device lib_invoke_fails ''10.0.0.2'' ''brightness''
          ''set_brightness'' (PyInt 40) None known_state)))) = 2 \<and>
     map_of (device_cache (snd (control_device lib_invoke_fails ''10.0.0.2'' ''brightness''
          ''set_brightness'' (PyInt 40) None known_state))) ''10.0.0.2'' = None"
  proof -
    obtain vars' s3 where rt: "control_device_retry lib_invoke_fails ''10.0.0.2'' ''brightness''
        ''set_brightness'' (PyInt 40) None vars s1 = ((vars', Inl boom), s3)"
      using r1
      by (cases "control_device_retry lib_invoke_fails ''10.0.0.2'' ''brightness''
        ''set_brightness'' (PyInt 40) None vars s1") auto
    from retry_exactly_once [OF disc1, THEN conjunct1, rule_format, OF conjI [OF t1 d]]
    obtain r s' where "control_device lib_invoke_fails ''10.0.0.2'' ''brightness''
        ''set_brightness'' (PyInt 40) None known_state = (Inr r, s')"
      and "length (acquired (trace s')) = length (acquired (trace known_state)) + 2"
      and "r = error_result boom \<and> map_of (device_cache s') ''10.0.0.2'' = None"
      unfolding rt by auto
    then show ?thesis by (simp add: e)
  qed
  have disc2: "\<forall>h w. fst (disconnect lib_offline h w) = Inr ()"
    by (simp add: lib_offline_def lib_update_fails_def lib_ok_def)
  define s2 where "s2 = snd (get_sys_info_try lib_offline ''10.0.0.2'' known_state)"
  have t2: "get_sys_info_try lib_offline ''10.0.0.2'' known_state = ((vars, Inl boom), s2)"
    unfolding vars_def s2_def by code_simp
  have r2: "snd (fst (get_sys_info_retry lib_offline ''10.0.0.2'' vars s2)) = Inl boom"
    unfolding vars_def s2_def by code_simp
  have o2: "fst (get_sys_info lib_offline ''10.0.0.2'' known_state) = Inr (error_result boom) \<and>
     length (acquired (trace (snd (get_sys_info lib_offline ''10.0.0.2'' known_state)))) = 2 \<and>
     map_of (device_cache (snd (get_sys_info lib_offline ''10.0.0.2'' known_state))) ''10.0.0.2'' = None"
  proof -
    obtain vars' s3 where rt: "get_sys_info_retry lib_offline ''10.0.0.2'' vars s2
        = ((vars', Inl boom), s3)"
      using r2 by (cases "get_sys_info_retry lib_offline ''10.0.0.2'' vars s2") auto
    from retry_exactly_once [OF disc2, THEN conjunct2, rule_format, OF conjI [OF t2 d]]
    obtain r s' where "get_sys_info lib_offline ''10.0.0.2'' known_state = (Inr r, s')"
      and "length (acquired (trace s')) = length (acquired (trace known_state)) + 2"
      and "r = error_result boom \<and> map_of (device_cache s') ''10.0.0.2'' = None"
      unfolding rt by auto
    then show ?thesis by (simp add: e)
  qed
  show ?thesis
    using disc1 disc2 o1 o2 by blast
qed

text \<open>
  Claim C2 as stated fails when \<open>disconnect\<close> raises: the first attempt fails with the
  handle 0 assigned, the invalidating \<open>disconnect\<close> raises inside the inner \<open>try\<close>, so the
  retry is skipped (the lock is entered once), the \<open>disconnect\<close> of the inner handler
  raises again and leaves \<open>control_device\<close> as an exception, and the handle stays in the
  cache.
\<close>

theorem retry_exactly_once_counterexample:
  "var_device (fst (fst (control_device_try lib_disconnect_fails ''10.0.0.2'' ''brightness''
      ''set_brightness'' (PyInt 40) None known_state))) = Some 0 \<and>
   snd (fst (control_device_try lib_disconnect_fails ''10.0.0.2'' ''brightness''
      ''set_brightness'' (PyInt 40) None known_state)) = Inl boom \<and>
   fst (control_device lib_disconnect_fails ''10.0.0.2'' ''brightness'' ''set_brightness''
      (PyInt 40) None known_state) = Inl boom \<and>
   trace (snd (control_device lib_disconnect_fails ''10.0.0.2'' ''brightness'' ''set_brightness''
      (PyInt 40) None known_state)) =
     [EvAcquire 0, EvCall 0 None OnLight ''set_brightness'' (IntArg 40), EvRelease 0,
      EvDisconnect 0, EvDisconnect 0] \<and>
   map_of (device_cache (snd (control_device lib_disconnect_fails ''10.0.0.2'' ''brightness''
      ''set_brightness'' (PyInt 40) None known_state))) ''10.0.0.2'' = Some 0"
  by code_simp







section \<open>The retry\<close>








section \<open>Unsupported combinations\<close>













section \<open>The lock of a known host\<close>

lemma replicate_snoc: "replicate k x @ [x] = replicate (Suc k) x"
  by (simp add: replicate_append_same)







section \<open>Properties of discovery\<close>





end
